theory Spec2Isabelle
  imports Complex_Main "HOL-Library.Word" "HOL-Library.Log_Nat"
begin

unbundle bit_operations_syntax

section \<open>JavaScript values as the telemetry feed delivers them\<close>

text \<open>
  The program (\<open>src/app/script.js\<close>) receives the parsed JSON body of the OpenSky
  \<open>states/all\<close> endpoint. A JavaScript number is an IEEE double: not a number, one of the
  two infinities (which \<open>JSON.parse\<close> does produce, from a literal such as \<open>1e999\<close>), or a
  finite value. Every finite double is a rational, so a finite number is modelled by its
  exact rational value. The two zeros are one value here: the program only tests zero for
  truthiness and takes its absolute value, where \<open>-0\<close> and \<open>0\<close> behave alike.
\<close>

datatype jsnum = NaN | PInf | NInf | Fin rat

text \<open>
  A field of a state vector is \<open>null\<close>, a boolean, a number, a string or (the sensor list)
  an array; reading an index that is not there gives \<open>undefined\<close>. A string is its list of
  code units, with HOL's characters covering the units 0 to 255. Plain objects do not occur
  inside the state list of the feed and are not modelled.
\<close>

datatype jsval =
    JUndefined
  | JNull
  | JBool bool
  | JNum jsnum
  | JStr string
  | JArr "jsval list"

datatype error = TypeError | FetchError

subsection \<open>StringToNumber (ECMA-262, 7.1.4.1.1), used by \<open>Number(...)\<close> and \<open>Math.abs\<close>\<close>

definition pow2 :: "int \<Rightarrow> rat" where
  "pow2 k = (if 0 \<le> k then 2 ^ nat k else 1 / 2 ^ nat (- k))"

definition pow10 :: "int \<Rightarrow> rat" where
  "pow10 k = (if 0 \<le> k then 10 ^ nat k else 1 / 10 ^ nat (- k))"

text \<open>The exponent \<open>e\<close> with \<open>2 ^ e \<le> a < 2 ^ (e + 1)\<close>, for a positive rational \<open>a\<close>.\<close>

definition floor_log2 :: "rat \<Rightarrow> int" where
  "floor_log2 a =
     (if 1 \<le> a then int (floorlog 2 (nat \<lfloor>a\<rfloor>)) - 1
      else (let f = int (floorlog 2 (nat \<lfloor>1 / a\<rfloor>)) - 1
            in if a = pow2 (- f) then - f else - (f + 1)))"

text \<open>Rounding to the nearest integer, ties to the even one.\<close>

definition round_half_even :: "rat \<Rightarrow> int" where
  "round_half_even x =
     (let n = \<lfloor>x\<rfloor>; r = x - of_int n
      in if r < 1 / 2 then n
         else if 1 / 2 < r then n + 1
         else if even n then n else n + 1)"

text \<open>
  The double nearest to a rational: 53 significant bits, subnormals below \<open>2 ^ -1022\<close>,
  overflow to an infinity from \<open>2 ^ 1024\<close> on.
\<close>

definition round_double :: "rat \<Rightarrow> jsnum" where
  "round_double q =
     (if q = 0 then Fin 0
      else (let a = \<bar>q\<bar>;
                e = floor_log2 a;
                k = (if e < - 1022 then - 1074 else e - 52);
                r = of_int (round_half_even (a / pow2 k)) * pow2 k
            in if pow2 1024 \<le> r then (if 0 < q then PInf else NInf)
               else Fin (sgn q * r)))"

definition is_ws :: "char \<Rightarrow> bool" where
  "is_ws c = ((of_char c :: nat) \<in> {9, 10, 11, 12, 13, 32, 160})"

definition trim :: "string \<Rightarrow> string" where
  "trim s = rev (dropWhile is_ws (rev (dropWhile is_ws s)))"

definition is_digit :: "char \<Rightarrow> bool" where
  "is_digit c = (48 \<le> (of_char c :: nat) \<and> (of_char c :: nat) \<le> 57)"

text \<open>The value of a digit in a radix up to 16, when the character is one.\<close>

definition digit_in :: "nat \<Rightarrow> char \<Rightarrow> nat option" where
  "digit_in radix c =
     (let n = (of_char c :: nat);
          v = (if 48 \<le> n \<and> n \<le> 57 then Some (n - 48)
               else if 97 \<le> n \<and> n \<le> 102 then Some (n - 87)
               else if 65 \<le> n \<and> n \<le> 70 then Some (n - 55)
               else None)
      in case v of None \<Rightarrow> None | Some d \<Rightarrow> (if d < radix then Some d else None))"

fun digits_value :: "nat \<Rightarrow> string \<Rightarrow> nat \<Rightarrow> nat option" where
  "digits_value radix [] acc = Some acc"
| "digits_value radix (c # cs) acc =
     (case digit_in radix c of
        None \<Rightarrow> None
      | Some d \<Rightarrow> digits_value radix cs (radix * acc + d))"

text \<open>A non-empty run of digits of the radix, and nothing else.\<close>

definition radix_literal :: "nat \<Rightarrow> string \<Rightarrow> jsnum" where
  "radix_literal radix ds =
     (if ds = [] then NaN
      else case digits_value radix ds 0 of
             None \<Rightarrow> NaN
           | Some n \<Rightarrow> round_double (of_nat n))"

text \<open>The exponent part after \<open>e\<close> or \<open>E\<close>: an optional sign and at least one digit.\<close>

definition exponent_part :: "string \<Rightarrow> int option" where
  "exponent_part s =
     (let neg = (s \<noteq> [] \<and> hd s = CHR ''-'');
          ds = (if s \<noteq> [] \<and> (hd s = CHR ''-'' \<or> hd s = CHR ''+'') then tl s else s)
      in if ds = [] then None
         else case digits_value 10 ds 0 of
                None \<Rightarrow> None
              | Some n \<Rightarrow> Some (if neg then - int n else int n))"

text \<open>
  StrUnsignedDecimalLiteral: \<open>Infinity\<close>, or digits with an optional fraction and an optional
  exponent, with a digit before or after the point. The result is the mathematical value,
  or \<open>None\<close> for \<open>Infinity\<close>; \<open>Inl ()\<close> when the text is not such a literal.
\<close>

definition unsigned_decimal :: "string \<Rightarrow> unit + rat option" where
  "unsigned_decimal s =
     (if s = ''Infinity'' then Inr None
      else (let ip = takeWhile is_digit s;
                r1 = dropWhile is_digit s;
                dot = (r1 \<noteq> [] \<and> hd r1 = CHR ''.'');
                fp = (if dot then takeWhile is_digit (tl r1) else []);
                r2 = (if dot then dropWhile is_digit (tl r1) else r1);
                ex = (if r2 = [] then Some 0
                      else if hd r2 = CHR ''e'' \<or> hd r2 = CHR ''E'' then exponent_part (tl r2)
                      else None)
            in if ip = [] \<and> fp = [] then Inl ()
               else case (digits_value 10 (ip @ fp) 0, ex) of
                      (Some m, Some x) \<Rightarrow> Inr (Some (of_nat m * pow10 (x - int (length fp))))
                    | _ \<Rightarrow> Inl ()))"

definition str_decimal :: "string \<Rightarrow> jsnum" where
  "str_decimal s =
     (let neg = (s \<noteq> [] \<and> hd s = CHR ''-'');
          u = (if s \<noteq> [] \<and> (hd s = CHR ''-'' \<or> hd s = CHR ''+'') then tl s else s)
      in case unsigned_decimal u of
           Inl _ \<Rightarrow> NaN
         | Inr None \<Rightarrow> (if neg then NInf else PInf)
         | Inr (Some q) \<Rightarrow> round_double (if neg then - q else q))"

definition string_to_number :: "string \<Rightarrow> jsnum" where
  "string_to_number s =
     (let t = trim s
      in if t = [] then Fin 0
         else if take 2 t = ''0x'' \<or> take 2 t = ''0X'' then radix_literal 16 (drop 2 t)
         else if take 2 t = ''0o'' \<or> take 2 t = ''0O'' then radix_literal 8 (drop 2 t)
         else if take 2 t = ''0b'' \<or> take 2 t = ''0B'' then radix_literal 2 (drop 2 t)
         else str_decimal t)"

subsection \<open>The conversions the program applies\<close>

text \<open>ToBoolean, applied by \<open>!lat\<close>, \<open>!lon\<close> and \<open>!rotation\<close>.\<close>

fun truthy :: "jsval \<Rightarrow> bool" where
  "truthy JUndefined = False"
| "truthy JNull = False"
| "truthy (JBool b) = b"
| "truthy (JNum NaN) = False"
| "truthy (JNum (Fin q)) = (q \<noteq> 0)"
| "truthy (JNum _) = True"
| "truthy (JStr s) = (s \<noteq> [])"
| "truthy (JArr _) = True"

text \<open>
  ToNumber, applied by \<open>Number(lon)\<close>, \<open>Number(lat)\<close> and \<open>Math.abs(dd)\<close>. An array converts
  through its \<open>join(",")\<close> text: the empty array gives the empty text, an array of one
  element the text of that element (empty for \<open>null\<close> and \<open>undefined\<close>; a number reads back
  as itself), and a longer array a text with a comma, which is no numeric literal.
\<close>

fun to_number :: "jsval \<Rightarrow> jsnum" where
  "to_number JUndefined = NaN"
| "to_number JNull = Fin 0"
| "to_number (JBool b) = (if b then Fin 1 else Fin 0)"
| "to_number (JNum x) = x"
| "to_number (JStr s) = string_to_number s"
| "to_number (JArr []) = Fin 0"
| "to_number (JArr [v]) =
     (case v of
        JUndefined \<Rightarrow> Fin 0
      | JNull \<Rightarrow> Fin 0
      | JBool b \<Rightarrow> NaN
      | _ \<Rightarrow> to_number v)"
| "to_number (JArr (v # w # vs)) = NaN"

text \<open>\<open>Math.abs\<close> on a number.\<close>

fun js_abs :: "jsnum \<Rightarrow> jsnum" where
  "js_abs NaN = NaN"
| "js_abs PInf = PInf"
| "js_abs NInf = PInf"
| "js_abs (Fin q) = Fin \<bar>q\<bar>"

text \<open>
  ToInt32, applied to both operands of \<open>|\<close>: not-a-number and the infinities give 0, a
  finite number is truncated towards zero and reduced modulo \<open>2 ^ 32\<close>.
\<close>

fun to_int32 :: "jsnum \<Rightarrow> 32 word" where
  "to_int32 (Fin q) = word_of_int (if q < 0 then - \<lfloor>- q\<rfloor> else \<lfloor>q\<rfloor>)"
| "to_int32 _ = 0"

text \<open>
  Reading \<open>v[i]\<close>: a TypeError on \<open>null\<close> and \<open>undefined\<close>, the element or the one-unit string
  when the index is in range, and \<open>undefined\<close> otherwise.
\<close>

fun index_get :: "jsval \<Rightarrow> nat \<Rightarrow> error + jsval" where
  "index_get JUndefined i = Inl TypeError"
| "index_get JNull i = Inl TypeError"
| "index_get (JArr xs) i = Inr (if i < length xs then xs ! i else JUndefined)"
| "index_get (JStr s) i = Inr (if i < length s then JStr [s ! i] else JUndefined)"
| "index_get _ i = Inr JUndefined"

section \<open>The state-vector parser\<close>

text \<open>
  \<open>decimalDegreesToRadians(dd)\<close>: \<open>Math.abs(dd)\<close>, then \<open>absDd | 0\<close>, then the product with
  \<open>Math.PI / 180\<close>. The degree count is a signed 32-bit integer, so the product is always a
  finite number; it is modelled by its exact real value (the rounding of the product to a
  double is not modelled).
\<close>

definition degrees :: "jsval \<Rightarrow> 32 word" where
  "degrees dd = (let absDd = js_abs (to_number dd) in to_int32 absDd OR to_int32 (Fin 0))"

definition decimalDegreesToRadians :: "jsval \<Rightarrow> real" where
  "decimalDegreesToRadians dd = (let deg = degrees dd in real_of_int (sint deg) * (pi / 180))"

text \<open>
  A marker is the icon \<open>createPlaneIcon\<close> builds: the \<open>[lon, lat]\<close> pair it hands to the map
  library's projection, the rotation of its icon style, and the \<open>airplaneData\<close> property the
  parser sets on it afterwards.
\<close>

record marker =
  lonlat :: "jsnum \<times> jsnum"
  rotation :: real
  airplaneData :: jsval

definition createPlaneIcon :: "jsnum \<times> jsnum \<Rightarrow> real \<Rightarrow> marker" where
  "createPlaneIcon coords rot = \<lparr>lonlat = coords, rotation = rot, airplaneData = JUndefined\<rparr>"

text \<open>
  The callback of \<open>flightData.states.forEach\<close>, on one state: a TypeError when the state
  cannot be indexed, \<open>None\<close> on the early return, and otherwise the marker it pushes.
\<close>

definition state_marker :: "jsval \<Rightarrow> error + marker option" where
  "state_marker state =
     (case index_get state 5 of
        Inl e \<Rightarrow> Inl e
      | Inr lon \<Rightarrow>
     (case index_get state 6 of
        Inl e \<Rightarrow> Inl e
      | Inr lat \<Rightarrow>
     (case index_get state 10 of
        Inl e \<Rightarrow> Inl e
      | Inr rot \<Rightarrow>
          if \<not> truthy lat \<or> \<not> truthy lon \<or> \<not> truthy rot then Inr None
          else (let lon' = to_number lon;
                    lat' = to_number lat;
                    rot' = decimalDegreesToRadians rot;
                    planeIcon = createPlaneIcon (lon', lat') rot'
                in Inr (Some (planeIcon\<lparr>airplaneData := state\<rparr>))))))"

text \<open>The \<open>forEach\<close> loop, with \<open>airplaneMarkers\<close> as the accumulator; an exception ends it.\<close>

fun forEach_states :: "jsval list \<Rightarrow> marker list \<Rightarrow> error + marker list" where
  "forEach_states [] airplaneMarkers = Inr airplaneMarkers"
| "forEach_states (state # rest) airplaneMarkers =
     (case state_marker state of
        Inl e \<Rightarrow> Inl e
      | Inr None \<Rightarrow> forEach_states rest airplaneMarkers
      | Inr (Some planeIcon) \<Rightarrow> forEach_states rest (airplaneMarkers @ [planeIcon]))"

text \<open>
  The parsed response body: an object whose \<open>states\<close> property is the state list (or
  \<open>null\<close>, which the feed sends when it has no state to report).
\<close>

record flight_data =
  states :: jsval

text \<open>
  \<open>getAirplaneMarkers(flightData)\<close>: only an array has a \<open>forEach\<close> method, so any other
  \<open>states\<close> value is a TypeError.
\<close>

definition getAirplaneMarkers :: "flight_data \<Rightarrow> error + marker list" where
  "getAirplaneMarkers flightData =
     (case states flightData of
        JArr sts \<Rightarrow> forEach_states sts []
      | _ \<Rightarrow> Inl TypeError)"

text \<open>
  A value can be indexed unless it is \<open>null\<close> or \<open>undefined\<close>; \<open>field state i\<close> is what
  \<open>state[i]\<close> reads from a state that can be indexed.
\<close>

definition indexable :: "jsval \<Rightarrow> bool" where
  "indexable v = (v \<noteq> JNull \<and> v \<noteq> JUndefined)"

definition field :: "jsval \<Rightarrow> nat \<Rightarrow> jsval" where
  "field state i = (case index_get state i of Inl _ \<Rightarrow> JUndefined | Inr v \<Rightarrow> v)"

text \<open>The validity test of the parser: all three fields it reads are truthy.\<close>

definition valid_state :: "jsval \<Rightarrow> bool" where
  "valid_state state = (truthy (field state 6) \<and> truthy (field state 5) \<and> truthy (field state 10))"

text \<open>
  The spec's words for a field that makes a record invalid: missing (\<open>undefined\<close>, \<open>null\<close>)
  or zero-equivalent (\<open>false\<close>, zero, not-a-number, the empty string).
\<close>

definition missing_or_falsy :: "jsval \<Rightarrow> bool" where
  "missing_or_falsy v =
     (v = JUndefined \<or> v = JNull \<or> v = JBool False \<or> v = JNum (Fin 0) \<or> v = JNum NaN \<or> v = JStr [])"

text \<open>A record with a missing or falsy latitude, longitude or heading field.\<close>

definition falsy_record :: "jsval \<Rightarrow> bool" where
  "falsy_record state =
     (missing_or_falsy (field state 6) \<or> missing_or_falsy (field state 5)
      \<or> missing_or_falsy (field state 10))"

text \<open>
  The spec's invalid record: its latitude, longitude or heading is "missing,
  zero-equivalent/falsy, or non-numeric after coercion", where non-numeric after coercion
  means that the conversion to a number gives not-a-number.
\<close>

definition invalid_field :: "jsval \<Rightarrow> bool" where
  "invalid_field v = (missing_or_falsy v \<or> to_number v = NaN)"

definition invalid_record :: "jsval \<Rightarrow> bool" where
  "invalid_record state =
     (invalid_field (field state 6) \<or> invalid_field (field state 5)
      \<or> invalid_field (field state 10))"

text \<open>The signed 32-bit reading of an integer: reduction modulo \<open>2 ^ 32\<close> into the signed range.\<close>

definition wrap32 :: "int \<Rightarrow> int" where
  "wrap32 n = (n + 2 ^ 31) mod 2 ^ 32 - 2 ^ 31"

section \<open>The inspection overlay\<close>

text \<open>
  The overlay is \<open>popupOverlay\<close> (hidden when its position is \<open>undefined\<close>) together with the
  markup of \<open>popupBody\<close>. The markup \<open>setPopupContent\<close> writes is modelled by its four rows,
  each a label and the value the template interpolates next to it.
\<close>

type_synonym coordinate = "real \<times> real"

type_synonym popup_row = "string \<times> jsval"

record ui =
  overlay_position :: "coordinate option"
  popup_body :: "popup_row list"
  closer_focused :: bool

definition setPopupContent :: "jsval \<Rightarrow> error + popup_row list" where
  "setPopupContent airplaneData' =
     (case index_get airplaneData' 1 of
        Inl e \<Rightarrow> Inl e
      | Inr callsign \<Rightarrow>
     (case index_get airplaneData' 2 of
        Inl e \<Rightarrow> Inl e
      | Inr origin \<Rightarrow>
     (case index_get airplaneData' 5 of
        Inl e \<Rightarrow> Inl e
      | Inr v5 \<Rightarrow>
     (case index_get airplaneData' 6 of
        Inl e \<Rightarrow> Inl e
      | Inr v6 \<Rightarrow>
          Inr [(''Callsign'', callsign), (''From'', origin),
               (''Latitude'', v5), (''Longitude'', v6)]))))"

text \<open>
  The click handler of the map. \<open>icon\<close> is what \<open>map.getFeaturesAtPixel(e.pixel)\<close> returns:
  \<open>null\<close> when the pixel strikes no feature, the array of struck features otherwise. The
  handler returns the exception it ends with, if any, and the user interface it leaves.
\<close>

definition map_click :: "marker list option \<Rightarrow> coordinate \<Rightarrow> ui \<Rightarrow> error option \<times> ui" where
  "map_click icon coordinate u =
     (case icon of
        None \<Rightarrow> (None, u\<lparr>overlay_position := None\<rparr>)
      | Some features \<Rightarrow>
          (let u1 = u\<lparr>overlay_position := Some coordinate\<rparr>
           in case features of
                [] \<Rightarrow> (Some TypeError, u1)
              | plane # _ \<Rightarrow>
                  (case setPopupContent (airplaneData plane) of
                     Inl e \<Rightarrow> (Some e, u1)
                   | Inr rows \<Rightarrow> (None, u1\<lparr>popup_body := rows\<rparr>))))"

text \<open>\<open>closePopupButton.onclick\<close>.\<close>

definition close_click :: "ui \<Rightarrow> ui" where
  "close_click u = u\<lparr>overlay_position := None, closer_focused := False\<rparr>"

text \<open>
  The program keeps no selection variable. The spec's InspectionState "exists only while the
  overlay is visible": it is the content on display while the overlay has a position.
\<close>

definition inspection_state :: "ui \<Rightarrow> popup_row list option" where
  "inspection_state u =
     (case overlay_position u of None \<Rightarrow> None | Some _ \<Rightarrow> Some (popup_body u))"

section \<open>The refresh cycle\<close>

text \<open>
  A layer of the map is the tile layer \<open>drawInitialMap\<close> installs or a vector layer made by
  \<open>getFlightDataOverlay\<close>; the number tells apart the objects that successive calls create.
\<close>

datatype layer = Tile | Vector nat "marker list"

datatype map_op = RemoveLayer "layer option" | AddLayer layer

text \<open>
  The state a cycle works on: the layer collection of the map, the calls made on the map so
  far, the counter for new layer objects, the loader's class, the pending refresh timeout
  (with the \<open>flightDataOverlay\<close> its callback captured), the number of requests sent to
  \<open>AIR_DATA_URL\<close>, and what the start-up chain's \<open>catch\<close> has logged.
\<close>

record world =
  map_layers :: "layer list"
  map_ops :: "map_op list"
  next_layer :: nat
  loader_invisible :: bool
  timer :: "layer option"
  fetches :: nat
  console :: "error list"

text \<open>
  \<open>hideLoader\<close> adds the class \<open>invisible\<close> to the loader (the class \<open>hidden\<close> that follows
  two seconds later changes nothing the cycle reads and is left out).
\<close>

definition hideLoader :: "world \<Rightarrow> world" where
  "hideLoader w = w\<lparr>loader_invisible := True\<rparr>"

definition getFlightDataOverlay :: "marker list \<Rightarrow> world \<Rightarrow> layer \<times> world" where
  "getFlightDataOverlay airplaneMarkers w =
     (Vector (next_layer w) airplaneMarkers, w\<lparr>next_layer := Suc (next_layer w)\<rparr>)"

text \<open>
  \<open>map.removeLayer\<close> takes the layer out of the collection when it is there (and does
  nothing for \<open>undefined\<close>, the \<open>oldDataLayer\<close> of the first cycle); \<open>map.addLayer\<close> appends.
\<close>

definition removeLayer :: "layer option \<Rightarrow> world \<Rightarrow> world" where
  "removeLayer l w =
     w\<lparr>map_layers := (case l of None \<Rightarrow> map_layers w | Some x \<Rightarrow> remove1 x (map_layers w)),
       map_ops := map_ops w @ [RemoveLayer l]\<rparr>"

definition addLayer :: "layer \<Rightarrow> world \<Rightarrow> world" where
  "addLayer l w = w\<lparr>map_layers := map_layers w @ [l], map_ops := map_ops w @ [AddLayer l]\<rparr>"

text \<open>
  \<open>processAirTrafficData(flightData, oldDataLayer)\<close>: the exception it ends with, if any, and
  the state it leaves. The last statement arms the refresh timeout.
\<close>

definition processAirTrafficData ::
    "flight_data \<Rightarrow> layer option \<Rightarrow> world \<Rightarrow> error option \<times> world" where
  "processAirTrafficData flightData oldDataLayer w =
     (let w1 = hideLoader w
      in case getAirplaneMarkers flightData of
           Inl e \<Rightarrow> (Some e, w1)
         | Inr airplaneMarkers \<Rightarrow>
             (let (flightDataOverlay, w2) = getFlightDataOverlay airplaneMarkers w1;
                  w3 = removeLayer oldDataLayer w2;
                  w4 = addLayer flightDataOverlay w3
              in (None, w4\<lparr>timer := Some flightDataOverlay\<rparr>)))"

text \<open>What \<open>get(AIR_DATA_URL)\<close> settles with: a rejection or the parsed body.\<close>

type_synonym response = "error + flight_data"

text \<open>
  The timeout's callback: it sends the request and, when the request is fulfilled, runs the
  next cycle on the overlay it captured. Nothing handles a rejection or an exception here.
  With no timeout pending, nothing runs.
\<close>

definition timer_fires :: "response \<Rightarrow> world \<Rightarrow> world" where
  "timer_fires r w =
     (case timer w of
        None \<Rightarrow> w
      | Some flightDataOverlay \<Rightarrow>
          (let w1 = w\<lparr>timer := None, fetches := Suc (fetches w)\<rparr>
           in case r of
                Inl e \<Rightarrow> w1
              | Inr data \<Rightarrow> snd (processAirTrafficData data (Some flightDataOverlay) w1)))"

text \<open>The state once \<open>drawInitialMap\<close> has run: the tile layer alone, nothing pending.\<close>

definition initial_world :: world where
  "initial_world =
     \<lparr>map_layers = [Tile], map_ops = [], next_layer = 0, loader_invisible = False,
      timer = None, fetches = 0, console = []\<rparr>"

text \<open>
  The tail of the start-up chain: the first request, \<open>processAirTrafficData\<close> with one
  argument, and the \<open>catch\<close> that logs.
\<close>

definition startup :: "response \<Rightarrow> world" where
  "startup r =
     (let w1 = initial_world\<lparr>fetches := 1\<rparr>
      in case r of
           Inl e \<Rightarrow> w1\<lparr>console := console w1 @ [e]\<rparr>
         | Inr data \<Rightarrow>
             (case processAirTrafficData data None w1 of
                (None, w2) \<Rightarrow> w2
              | (Some e, w2) \<Rightarrow> w2\<lparr>console := console w2 @ [e]\<rparr>))"

text \<open>
  The program from a state on, against the responses the network holds ready for the
  requests to come, one for each expiry of the refresh interval.
\<close>

fun run :: "response list \<Rightarrow> world \<Rightarrow> world" where
  "run [] w = w"
| "run (r # rs) w = run rs (timer_fires r w)"

text \<open>A cycle fails when its request is rejected or the transformation of its body throws.\<close>

definition cycle_fails :: "response \<Rightarrow> bool" where
  "cycle_fails r = (case r of Inl e \<Rightarrow> True | Inr data \<Rightarrow> isl (getAirplaneMarkers data))"

text \<open>
  Layer objects are created with increasing numbers, so in every reachable state a layer of
  the map or of the pending timeout has a number below the counter, and the collection
  holds no layer twice.
\<close>

definition layer_known :: "world \<Rightarrow> layer \<Rightarrow> bool" where
  "layer_known w l = (case l of Tile \<Rightarrow> True | Vector i _ \<Rightarrow> i < next_layer w)"

definition wf_world :: "world \<Rightarrow> bool" where
  "wf_world w =
     (distinct (map_layers w) \<and> list_all (layer_known w) (map_layers w)
      \<and> (case timer w of None \<Rightarrow> True | Some l \<Rightarrow> layer_known w l))"

section \<open>Derived notions and test data\<close>

text \<open>
  The marker the callback pushes for a state that passes its test: built by
  \<open>createPlaneIcon\<close> from the converted fields, then given the state as \<open>airplaneData\<close>.
\<close>

definition state_icon :: "jsval \<Rightarrow> marker" where
  "state_icon state =
     (createPlaneIcon (to_number (field state 5), to_number (field state 6))
        (decimalDegreesToRadians (field state 10)))\<lparr>airplaneData := state\<rparr>"

text \<open>
  The state vector of the spec's scenario,
  \<open>[null, "ABC123", "USA", null, null, lon, lat, null, null, null, heading]\<close>, with the three
  fields the parser reads left open; and the scenario itself with values that are exact
  doubles (10.5, 20.25 and 45.75), alone in a response.
\<close>

definition scenario :: "jsval \<Rightarrow> jsval \<Rightarrow> jsval \<Rightarrow> jsval" where
  "scenario lon lat heading =
     JArr [JNull, JStr ''ABC123'', JStr ''USA'', JNull, JNull, lon, lat,
           JNull, JNull, JNull, heading]"

definition scenario_state :: jsval where
  "scenario_state = scenario (JNum (Fin (21 / 2))) (JNum (Fin (81 / 4))) (JNum (Fin (183 / 4)))"

definition scenario_response :: response where
  "scenario_response = Inr \<lparr>states = JArr [scenario_state]\<rparr>"

section \<open>The heading conversion\<close>

lemma floor_rat_numeral [simp]:
  "\<lfloor>numeral a / numeral b :: rat\<rfloor> = numeral a div numeral b"
  using floor_divide_of_int_eq [of "numeral a" "numeral b", where ?'a = rat] by simp

lemma degrees_Fin: "to_number dd = Fin x \<Longrightarrow> degrees dd = word_of_int \<lfloor>\<bar>x\<bar>\<rfloor>"
  by (simp add: degrees_def)

lemma sint_degrees: "to_number dd = Fin x \<Longrightarrow> sint (degrees dd) = wrap32 \<lfloor>\<bar>x\<bar>\<rfloor>"
  by (simp add: degrees_Fin int_word_sint wrap32_def)

lemma wrap32_id_iff:
  assumes "0 \<le> n"
  shows "(wrap32 n = n) = (n < 2 ^ 31)"
proof (cases "n < 2 ^ 31")
  case True
  with assms have "(n + 2 ^ 31) mod 2 ^ 32 = n + 2 ^ 31"
    by (simp add: mod_pos_pos_trivial)
  with True show ?thesis
    by (simp add: wrap32_def)
next
  case False
  have "(n + 2 ^ 31) mod 2 ^ 32 < (2 ^ 32 :: int)"
    by simp
  with False show ?thesis
    by (simp add: wrap32_def)
qed

lemma floor_abs_less: "(\<lfloor>\<bar>x :: rat\<bar>\<rfloor> < 2 ^ 31) = (\<bar>x\<bar> < 2 ^ 31)"
  by (simp add: floor_less_iff)

lemma radians_eq_iff: "(real_of_int a * (pi / 180) = real_of_int b * (pi / 180)) = (a = b)"
  by simp

lemma radians_Fin:
  "to_number dd = Fin x \<Longrightarrow>
   decimalDegreesToRadians dd = real_of_int (wrap32 \<lfloor>\<bar>x\<bar>\<rfloor>) * (pi / 180)"
  by (simp only: decimalDegreesToRadians_def Let_def sint_degrees)

text \<open>
  C10. The degree count \<open>absDd | 0\<close> is a signed 32-bit truncation. For a heading that
  converts to the finite number \<open>x\<close>, the count is the floor of \<open>|x|\<close> reduced modulo \<open>2 ^ 32\<close>
  into the signed range, and the radians are that count times \<open>pi / 180\<close>. The count equals
  the floor of \<open>|x|\<close>, and the radians equal floor of \<open>|x|\<close> times \<open>pi / 180\<close>, exactly when
  \<open>|x| < 2 ^ 31\<close>; from \<open>2 ^ 31\<close> on both deviate.
\<close>

theorem degree_truncation_is_int32:
  assumes "to_number dd = Fin x"
  shows "sint (degrees dd) = wrap32 \<lfloor>\<bar>x\<bar>\<rfloor>
       \<and> decimalDegreesToRadians dd = real_of_int (wrap32 \<lfloor>\<bar>x\<bar>\<rfloor>) * (pi / 180)
       \<and> (sint (degrees dd) = \<lfloor>\<bar>x\<bar>\<rfloor>) = (\<bar>x\<bar> < 2 ^ 31)
       \<and> (decimalDegreesToRadians dd = real_of_int \<lfloor>\<bar>x\<bar>\<rfloor> * (pi / 180)) = (\<bar>x\<bar> < 2 ^ 31)"
proof -
  have d: "sint (degrees dd) = wrap32 \<lfloor>\<bar>x\<bar>\<rfloor>"
    using assms by (rule sint_degrees)
  have r: "decimalDegreesToRadians dd = real_of_int (wrap32 \<lfloor>\<bar>x\<bar>\<rfloor>) * (pi / 180)"
    using assms by (rule radians_Fin)
  have w: "(wrap32 \<lfloor>\<bar>x\<bar>\<rfloor> = \<lfloor>\<bar>x\<bar>\<rfloor>) = (\<bar>x\<bar> < 2 ^ 31)"
    by (simp add: wrap32_id_iff floor_abs_less)
  show ?thesis
    unfolding r d radians_eq_iff using w by simp
qed

text \<open>
  At 45.75 the count is 45; at \<open>2 ^ 31\<close> it is \<open>- 2 ^ 31\<close>, a negative number of degrees.
\<close>

theorem degree_truncation_is_int32_witness:
  "sint (degrees (JNum (Fin (183 / 4)))) = 45
   \<and> decimalDegreesToRadians (JNum (Fin (183 / 4))) = 45 * (pi / 180)
   \<and> sint (degrees (JNum (Fin 2147483648))) = - 2147483648
   \<and> decimalDegreesToRadians (JNum (Fin 2147483648)) \<noteq> 2147483648 * (pi / 180)"
  using degree_truncation_is_int32 [of "JNum (Fin (183 / 4))" "183 / 4"]
    degree_truncation_is_int32 [of "JNum (Fin 2147483648)" 2147483648]
  by (simp add: wrap32_def)

section \<open>The parser on one state vector\<close>

lemma radians_JNum:
  "decimalDegreesToRadians (JNum (Fin x)) = real_of_int (wrap32 \<lfloor>\<bar>x\<bar>\<rfloor>) * (pi / 180)"
  by (rule radians_Fin) simp

lemma index_get_indexable: "indexable state \<Longrightarrow> index_get state i = Inr (field state i)"
  by (cases state) (simp_all add: indexable_def field_def)

lemma index_get_error: "\<not> indexable state \<Longrightarrow> index_get state i = Inl TypeError"
  by (cases state) (simp_all add: indexable_def)

lemma truthy_iff: "truthy v = (\<not> missing_or_falsy v)"
  by (induction v rule: truthy.induct) (auto simp: missing_or_falsy_def)

lemma state_marker_eq:
  "indexable state \<Longrightarrow>
   state_marker state =
     (if valid_state state
      then Inr (Some \<lparr>lonlat = (to_number (field state 5), to_number (field state 6)),
                      rotation = decimalDegreesToRadians (field state 10),
                      airplaneData = state\<rparr>)
      else Inr None)"
  by (auto simp: state_marker_def index_get_indexable valid_state_def createPlaneIcon_def Let_def)

lemma state_marker_error: "\<not> indexable state \<Longrightarrow> state_marker state = Inl TypeError"
  by (simp add: state_marker_def index_get_error)

lemma state_marker_icon:
  "indexable state \<Longrightarrow>
   state_marker state = (if valid_state state then Inr (Some (state_icon state)) else Inr None)"
  by (simp add: state_marker_eq state_icon_def createPlaneIcon_def)

lemma state_marker_Some:
  assumes "state_marker state = Inr (Some m)"
  shows "indexable state \<and> valid_state state \<and> m = state_icon state"
proof (cases "indexable state")
  case True
  with assms show ?thesis
    by (simp add: state_marker_icon split: if_splits)
next
  case False
  with assms show ?thesis
    by (simp add: state_marker_error)
qed

lemma airplaneData_state_icon [simp]: "airplaneData (state_icon state) = state"
  by (simp add: state_icon_def)

lemma field_scenario:
  "field (scenario lon lat heading) 5 = lon"
  "field (scenario lon lat heading) 6 = lat"
  "field (scenario lon lat heading) 10 = heading"
  "field (scenario lon lat heading) 1 = JStr ''ABC123''"
  "field (scenario lon lat heading) (Suc 0) = JStr ''ABC123''"
  "field (scenario lon lat heading) 2 = JStr ''USA''"
  by (simp_all add: field_def scenario_def)

lemma indexable_scenario: "indexable (scenario lon lat heading)"
  by (simp add: indexable_def scenario_def)

lemma NaN_abc: "string_to_number ''abc'' = NaN"
  by (simp add: string_to_number_def trim_def is_ws_def str_decimal_def unsigned_decimal_def
      is_digit_def)

lemma NaN_na: "string_to_number ''N/A'' = NaN"
  by (simp add: string_to_number_def trim_def is_ws_def str_decimal_def unsigned_decimal_def
      is_digit_def)

lemma NaN_unknown: "string_to_number ''unknown'' = NaN"
  by (simp add: string_to_number_def trim_def is_ws_def str_decimal_def unsigned_decimal_def
      is_digit_def)

lemma radians_NaN: "to_number dd = NaN \<Longrightarrow> decimalDegreesToRadians dd = 0"
  by (simp add: decimalDegreesToRadians_def degrees_def)

lemma valid_state_iff: "valid_state state = (\<not> falsy_record state)"
  by (auto simp: valid_state_def falsy_record_def truthy_iff)

lemma falsy_imp_invalid: "falsy_record state \<Longrightarrow> invalid_record state"
  by (auto simp: falsy_record_def invalid_record_def invalid_field_def)

lemma field_update_other:
  "field (JArr (xs[Suc 0 := a, 2 := b])) 5 = field (JArr xs) 5"
  "field (JArr (xs[Suc 0 := a, 2 := b])) 6 = field (JArr xs) 6"
  "field (JArr (xs[Suc 0 := a, 2 := b])) 10 = field (JArr xs) 10"
  by (simp_all add: field_def)

lemma setPopupContent_indexable:
  "indexable state \<Longrightarrow>
   setPopupContent state =
     Inr [(''Callsign'', field state 1), (''From'', field state 2),
          (''Latitude'', field state 5), (''Longitude'', field state 6)]"
  by (simp add: setPopupContent_def index_get_indexable)

text \<open>
  C1, as stated, fails in one clause: the parser reads nothing at positions 1 and 2. Two
  state vectors that differ only in the identity and the origin give markers with the same
  position and the same rotation; a marker has no identity and no origin of its own, only
  the vector it keeps.
\<close>

theorem parser_ignores_identity_counterexample:
  "state_marker scenario_state
     = Inr (Some \<lparr>lonlat = (Fin (21 / 2), Fin (81 / 4)), rotation = 45 * (pi / 180),
                   airplaneData = scenario_state\<rparr>)
   \<and> state_marker
       (JArr [JNull, JStr ''XYZ789'', JStr ''France'', JNull, JNull, JNum (Fin (21 / 2)),
              JNum (Fin (81 / 4)), JNull, JNull, JNull, JNum (Fin (183 / 4))])
     = Inr (Some \<lparr>lonlat = (Fin (21 / 2), Fin (81 / 4)), rotation = 45 * (pi / 180),
                   airplaneData =
                     JArr [JNull, JStr ''XYZ789'', JStr ''France'', JNull, JNull,
                           JNum (Fin (21 / 2)), JNum (Fin (81 / 4)), JNull, JNull, JNull,
                           JNum (Fin (183 / 4))]\<rparr>)"
proof -
  have "state_marker scenario_state
     = Inr (Some \<lparr>lonlat = (Fin (21 / 2), Fin (81 / 4)), rotation = 45 * (pi / 180),
                   airplaneData = scenario_state\<rparr>)"
    by (simp add: scenario_state_def state_marker_eq indexable_scenario valid_state_def
        field_scenario radians_JNum wrap32_def)
  moreover have "indexable
       (JArr [JNull, JStr ''XYZ789'', JStr ''France'', JNull, JNull, JNum (Fin (21 / 2)),
              JNum (Fin (81 / 4)), JNull, JNull, JNull, JNum (Fin (183 / 4))])"
    by (simp add: indexable_def)
  then have "state_marker
       (JArr [JNull, JStr ''XYZ789'', JStr ''France'', JNull, JNull, JNum (Fin (21 / 2)),
              JNum (Fin (81 / 4)), JNull, JNull, JNull, JNum (Fin (183 / 4))])
     = Inr (Some \<lparr>lonlat = (Fin (21 / 2), Fin (81 / 4)), rotation = 45 * (pi / 180),
                   airplaneData =
                     JArr [JNull, JStr ''XYZ789'', JStr ''France'', JNull, JNull,
                           JNum (Fin (21 / 2)), JNum (Fin (81 / 4)), JNull, JNull, JNull,
                           JNum (Fin (183 / 4))]\<rparr>)"
    by (simp add: state_marker_eq valid_state_def field_def radians_JNum wrap32_def)
  ultimately show ?thesis
    by (simp only:)
qed

text \<open>
  C1, amended. The parser and the overlay use different offsets, both at once. For every
  state vector whose latitude, longitude and heading fields are truthy, the parser makes a
  marker: its longitude is the number at position 5, its latitude the number at position 6,
  its heading comes from position 10, and it keeps the whole vector. The parser reads
  nothing at positions 1 and 2: with other values there it makes the same marker, apart
  from the vector kept. Identity and origin are read by the overlay, from positions 1 and
  2 of the kept vector; a click on the marker fills the overlay with them and with the
  value at position 5 under the label Latitude and the value at position 6 under the label
  Longitude.
\<close>

theorem parser_and_overlay_offsets:
  assumes "indexable state" and "valid_state state"
  shows "\<exists>m. state_marker state = Inr (Some m)
       \<and> fst (lonlat m) = to_number (field state 5)
       \<and> snd (lonlat m) = to_number (field state 6)
       \<and> rotation m = decimalDegreesToRadians (field state 10)
       \<and> airplaneData m = state
       \<and> (\<forall>xs a b. state = JArr xs \<longrightarrow>
            state_marker (JArr (xs[1 := a, 2 := b]))
              = Inr (Some (m\<lparr>airplaneData := JArr (xs[1 := a, 2 := b])\<rparr>)))
       \<and> setPopupContent (airplaneData m)
           = Inr [(''Callsign'', field state 1), (''From'', field state 2),
                  (''Latitude'', field state 5), (''Longitude'', field state 6)]
       \<and> (\<forall>others coordinate u. map_click (Some (m # others)) coordinate u
           = (None, u\<lparr>overlay_position := Some coordinate,
                       popup_body := [(''Callsign'', field state 1), (''From'', field state 2),
                                      (''Latitude'', field state 5),
                                      (''Longitude'', field state 6)]\<rparr>))"
proof -
  let ?m = "state_icon state"
  have p: "state_marker state = Inr (Some ?m)"
    using assms by (simp add: state_marker_icon)
  have c: "setPopupContent (airplaneData ?m)
      = Inr [(''Callsign'', field state 1), (''From'', field state 2),
             (''Latitude'', field state 5), (''Longitude'', field state 6)]"
    using assms(1) by (simp add: setPopupContent_indexable)
  have i: "state_marker (JArr (xs[1 := a, 2 := b]))
      = Inr (Some (?m\<lparr>airplaneData := JArr (xs[1 := a, 2 := b])\<rparr>))"
    if "state = JArr xs" for xs a b
  proof -
    have "valid_state (JArr (xs[1 := a, 2 := b]))"
      using assms(2) that by (simp add: valid_state_def field_update_other)
    then show ?thesis
      using that
      by (simp add: state_marker_icon indexable_def state_icon_def createPlaneIcon_def
          field_update_other)
  qed
  have "fst (lonlat ?m) = to_number (field state 5)"
    and "snd (lonlat ?m) = to_number (field state 6)"
    and "rotation ?m = decimalDegreesToRadians (field state 10)"
    by (simp_all add: state_icon_def createPlaneIcon_def)
  with p c i show ?thesis
    by (intro exI [of _ ?m]) (simp add: map_click_def)
qed

text \<open>
  On the scenario the parser makes a marker at longitude 10.5 and latitude 20.25, turned
  by 45 degrees, and the overlay shows 10.5 as Latitude and 20.25 as Longitude.
\<close>

theorem parser_and_overlay_offsets_witness:
  "state_marker scenario_state = Inr (Some (state_icon scenario_state))
   \<and> lonlat (state_icon scenario_state) = (Fin (21 / 2), Fin (81 / 4))
   \<and> rotation (state_icon scenario_state) = 45 * (pi / 180)
   \<and> setPopupContent (airplaneData (state_icon scenario_state))
     = Inr [(''Callsign'', JStr ''ABC123''), (''From'', JStr ''USA''),
            (''Latitude'', JNum (Fin (21 / 2))), (''Longitude'', JNum (Fin (81 / 4)))]"
  using parser_and_overlay_offsets [of scenario_state]
  by (simp add: scenario_state_def state_marker_icon indexable_scenario valid_state_def
      field_scenario state_icon_def createPlaneIcon_def radians_JNum wrap32_def
      setPopupContent_indexable)

text \<open>
  C2, as stated, fails: the scenario with heading 3000000000 has truthy numeric fields, yet
  its marker's rotation is \<open>- 1294967296 * pi / 180\<close>, not the floor of the heading times
  \<open>pi / 180\<close>.
\<close>

theorem heading_floor_counterexample:
  "state_marker (scenario (JNum (Fin (21 / 2))) (JNum (Fin (81 / 4))) (JNum (Fin 3000000000)))
     = Inr (Some \<lparr>lonlat = (Fin (21 / 2), Fin (81 / 4)),
                   rotation = - 1294967296 * (pi / 180),
                   airplaneData =
                     scenario (JNum (Fin (21 / 2))) (JNum (Fin (81 / 4))) (JNum (Fin 3000000000))\<rparr>)
   \<and> - 1294967296 * (pi / 180) \<noteq> real_of_int \<lfloor>\<bar>3000000000 :: rat\<bar>\<rfloor> * (pi / 180)"
proof -
  have "- 1294967296 * (pi / 180) < (0 :: real)"
    by simp
  moreover have "0 \<le> real_of_int \<lfloor>\<bar>3000000000 :: rat\<bar>\<rfloor> * (pi / 180)"
    by simp
  ultimately have
    "- 1294967296 * (pi / 180) \<noteq> real_of_int \<lfloor>\<bar>3000000000 :: rat\<bar>\<rfloor> * (pi / 180)"
    by linarith
  then show ?thesis
    by (simp add: state_marker_eq indexable_scenario valid_state_def field_scenario radians_JNum
        wrap32_def)
qed

text \<open>
  C2, amended. For every state vector whose latitude, longitude and heading fields are
  truthy and whose heading converts to a finite number \<open>h\<close> with \<open>|h| < 2 ^ 31\<close>, the parser
  returns a marker whose rotation is the floor of \<open>|h|\<close> times \<open>pi / 180\<close>.
\<close>

theorem heading_radians_floor:
  assumes "indexable state" and "valid_state state"
    and "to_number (field state 10) = Fin h" and "\<bar>h\<bar> < 2 ^ 31"
  shows "\<exists>m. state_marker state = Inr (Some m) \<and> rotation m = real_of_int \<lfloor>\<bar>h\<bar>\<rfloor> * pi / 180"
proof -
  have "wrap32 \<lfloor>\<bar>h\<bar>\<rfloor> = \<lfloor>\<bar>h\<bar>\<rfloor>"
    using assms(4) by (simp add: wrap32_id_iff floor_abs_less)
  then have "decimalDegreesToRadians (field state 10) = real_of_int \<lfloor>\<bar>h\<bar>\<rfloor> * pi / 180"
    using radians_Fin [OF assms(3)] by simp
  then show ?thesis
    using assms(1,2) by (simp add: state_marker_eq)
qed

text \<open>On the scenario, heading 45.75 gives 45 degrees.\<close>

theorem heading_radians_floor_witness:
  "\<exists>m. state_marker scenario_state = Inr (Some m) \<and> rotation m = 45 * pi / 180"
  using heading_radians_floor [of scenario_state "183 / 4"]
  by (simp add: scenario_state_def indexable_scenario valid_state_def field_scenario
      state_marker_eq radians_JNum wrap32_def)

text \<open>
  C3, as stated, fails: with the latitude \<open>"abc"\<close>, which converts to not-a-number, the
  parser does not skip the record; it makes a marker whose latitude is not-a-number.
\<close>

theorem nonnumeric_field_counterexample:
  "to_number (field (scenario (JNum (Fin (21 / 2))) (JStr ''abc'') (JNum (Fin (183 / 4)))) 6) = NaN
   \<and> state_marker (scenario (JNum (Fin (21 / 2))) (JStr ''abc'') (JNum (Fin (183 / 4))))
       = Inr (Some \<lparr>lonlat = (Fin (21 / 2), NaN),
                     rotation = 45 * (pi / 180),
                     airplaneData =
                       scenario (JNum (Fin (21 / 2))) (JStr ''abc'') (JNum (Fin (183 / 4)))\<rparr>)"
  by (simp add: state_marker_eq indexable_scenario valid_state_def field_scenario radians_JNum
      wrap32_def NaN_abc)

text \<open>
  C3, amended. For every state vector, the parser yields absent, without an error, exactly
  when the latitude, the longitude or the heading field is missing or falsy (\<open>undefined\<close>,
  \<open>null\<close>, \<open>false\<close>, zero, not-a-number or the empty string).
\<close>

theorem parse_absent_iff_falsy:
  assumes "indexable state"
  shows "(state_marker state = Inr None)
       = (missing_or_falsy (field state 6) \<or> missing_or_falsy (field state 5)
          \<or> missing_or_falsy (field state 10))"
  using assms by (simp add: state_marker_eq valid_state_def truthy_iff)

text \<open>
  A zero heading and a \<open>null\<close> latitude are skipped; the scenario itself is not.
\<close>

theorem parse_absent_iff_falsy_witness:
  "state_marker (scenario (JNum (Fin (21 / 2))) (JNum (Fin (81 / 4))) (JNum (Fin 0))) = Inr None
   \<and> state_marker (scenario (JNum (Fin (21 / 2))) JNull (JNum (Fin (183 / 4)))) = Inr None
   \<and> state_marker scenario_state \<noteq> Inr None"
  using parse_absent_iff_falsy [of "scenario (JNum (Fin (21 / 2))) (JNum (Fin (81 / 4))) (JNum (Fin 0))"]
    parse_absent_iff_falsy [of "scenario (JNum (Fin (21 / 2))) JNull (JNum (Fin (183 / 4)))"]
    parse_absent_iff_falsy [of scenario_state]
  by (simp add: scenario_state_def indexable_scenario field_scenario missing_or_falsy_def)

section \<open>The transformation of a snapshot\<close>

lemma forEach_states_acc:
  "list_all indexable sts \<Longrightarrow>
   forEach_states sts acc = Inr (acc @ map state_icon (filter valid_state sts))"
  by (induction sts arbitrary: acc) (simp_all add: state_marker_icon)

lemma forEach_states_Inr:
  "forEach_states sts acc = Inr ms \<Longrightarrow> list_all indexable sts"
proof (induction sts arbitrary: acc)
  case Nil
  then show ?case by simp
next
  case (Cons s sts)
  show ?case
  proof (cases "indexable s")
    case True
    with Cons show ?thesis
      by (auto simp: state_marker_icon split: if_splits)
  next
    case False
    with Cons.prems show ?thesis
      by (simp add: state_marker_error)
  qed
qed

lemma getAirplaneMarkers_Inr:
  assumes "getAirplaneMarkers fd = Inr ms"
  shows "\<exists>sts. states fd = JArr sts \<and> list_all indexable sts
               \<and> ms = map state_icon (filter valid_state sts)"
proof (cases "states fd")
  case (JArr sts)
  with assms have f: "forEach_states sts [] = Inr ms"
    by (simp add: getAirplaneMarkers_def)
  then have "list_all indexable sts"
    by (rule forEach_states_Inr)
  with f JArr show ?thesis
    by (simp add: forEach_states_acc)
qed (use assms in \<open>simp_all add: getAirplaneMarkers_def\<close>)

lemma length_filter_complement:
  "length (filter P xs) = length xs - length (filter (\<lambda>x. \<not> P x) xs)"
  using sum_length_filter_compl [of P xs] by simp

lemma rotation_bound: "\<bar>decimalDegreesToRadians dd\<bar> \<le> 2 ^ 31 * (pi / 180)"
proof -
  have "- (2 ^ 31) \<le> sint (degrees dd)" and "sint (degrees dd) < 2 ^ 31"
    using sint_ge [of "degrees dd"] sint_lt [of "degrees dd"] by simp_all
  then have "\<bar>sint (degrees dd)\<bar> \<le> 2 ^ 31"
    by arith
  then have "real_of_int \<bar>sint (degrees dd)\<bar> \<le> real_of_int (2 ^ 31)"
    by (simp only: of_int_le_iff)
  then have "\<bar>real_of_int (sint (degrees dd))\<bar> \<le> 2 ^ 31"
    by simp
  then have "\<bar>real_of_int (sint (degrees dd))\<bar> * (pi / 180) \<le> 2 ^ 31 * (pi / 180)"
    by (intro mult_right_mono) simp_all
  moreover have "\<bar>decimalDegreesToRadians dd\<bar> = \<bar>real_of_int (sint (degrees dd))\<bar> * (pi / 180)"
    by (simp only: decimalDegreesToRadians_def Let_def abs_mult) simp
  ultimately show ?thesis
    by (simp only:)
qed

text \<open>
  C4, as stated, fails: of two records, the second has the heading \<open>"unknown"\<close>, which
  converts to not-a-number, so it is invalid and \<open>N - K\<close> is 1; yet both records come
  out as markers, the second turned by 0 degrees.
\<close>

theorem invalid_record_kept_counterexample:
  "invalid_record (scenario (JNum (Fin 3)) (JNum (Fin 50)) (JStr ''unknown''))
   \<and> \<not> invalid_record scenario_state
   \<and> getAirplaneMarkers
       \<lparr>states = JArr [scenario_state,
                       scenario (JNum (Fin 3)) (JNum (Fin 50)) (JStr ''unknown'')]\<rparr>
     = Inr [\<lparr>lonlat = (Fin (21 / 2), Fin (81 / 4)), rotation = 45 * (pi / 180),
             airplaneData = scenario_state\<rparr>,
            \<lparr>lonlat = (Fin 3, Fin 50), rotation = 0,
             airplaneData = scenario (JNum (Fin 3)) (JNum (Fin 50)) (JStr ''unknown'')\<rparr>]"
  by (simp add: invalid_record_def invalid_field_def missing_or_falsy_def scenario_state_def
      getAirplaneMarkers_def state_marker_eq indexable_scenario valid_state_def field_scenario
      radians_JNum radians_NaN wrap32_def NaN_unknown)

text \<open>
  C4, amended. For a response whose \<open>states\<close> is a list of \<open>N\<close> state vectors, \<open>K\<close> of them
  with a missing or falsy latitude, longitude or heading field, the transformation does
  not fail and produces exactly \<open>N - K\<close> markers: the markers of the other vectors, in the
  order of those vectors. Where no record is invalid by a truthy non-numeric field alone,
  \<open>K\<close> is the number of invalid records. On the empty list the transformation produces
  the empty list.
\<close>

theorem transform_count_and_order:
  assumes "states fd = JArr sts" and "list_all indexable sts"
  shows "\<exists>ms. getAirplaneMarkers fd = Inr ms
           \<and> ms = map state_icon (filter (\<lambda>s. \<not> falsy_record s) sts)
           \<and> map airplaneData ms = filter (\<lambda>s. \<not> falsy_record s) sts
           \<and> length ms = length sts - length (filter falsy_record sts)
           \<and> ((\<forall>s \<in> set sts. invalid_record s \<longrightarrow> falsy_record s) \<longrightarrow>
                length ms = length sts - length (filter invalid_record sts))
           \<and> (sts = [] \<longrightarrow> ms = [])"
proof -
  have v: "valid_state = (\<lambda>s. \<not> falsy_record s)"
    by (rule ext) (rule valid_state_iff)
  have "getAirplaneMarkers fd = Inr (map state_icon (filter valid_state sts))"
    using assms by (simp add: getAirplaneMarkers_def forEach_states_acc)
  moreover have
    "map airplaneData (map state_icon (filter valid_state sts)) = filter valid_state sts"
    by (simp add: comp_def)
  moreover have "length (map state_icon (filter valid_state sts))
      = length sts - length (filter falsy_record sts)"
    by (simp add: length_filter_complement [of valid_state] valid_state_iff)
  moreover have "filter invalid_record sts = filter falsy_record sts"
    if "\<forall>s \<in> set sts. invalid_record s \<longrightarrow> falsy_record s"
    using that by (intro filter_cong) (auto dest: falsy_imp_invalid)
  ultimately show ?thesis
    unfolding v by auto
qed

text \<open>
  Three records, the second with a \<open>null\<close> latitude and the only invalid one: the first and
  the third come out, in that order. And the empty list gives the empty list.
\<close>

theorem transform_count_and_order_witness:
  "filter invalid_record
     [scenario_state,
      scenario (JNum (Fin 3)) JNull (JNum (Fin 90)),
      scenario (JNum (Fin (- 7))) (JNum (Fin 50)) (JNum (Fin 270))]
   = [scenario (JNum (Fin 3)) JNull (JNum (Fin 90))]
   \<and> getAirplaneMarkers
     \<lparr>states = JArr [scenario_state,
                     scenario (JNum (Fin 3)) JNull (JNum (Fin 90)),
                     scenario (JNum (Fin (- 7))) (JNum (Fin 50)) (JNum (Fin 270))]\<rparr>
   = Inr [state_icon scenario_state,
          state_icon (scenario (JNum (Fin (- 7))) (JNum (Fin 50)) (JNum (Fin 270)))]
   \<and> getAirplaneMarkers \<lparr>states = JArr []\<rparr> = Inr []"
  using transform_count_and_order
    [of "\<lparr>states = JArr [scenario_state,
                     scenario (JNum (Fin 3)) JNull (JNum (Fin 90)),
                     scenario (JNum (Fin (- 7))) (JNum (Fin 50)) (JNum (Fin 270))]\<rparr>"
        "[scenario_state,
          scenario (JNum (Fin 3)) JNull (JNum (Fin 90)),
          scenario (JNum (Fin (- 7))) (JNum (Fin 50)) (JNum (Fin 270))]"]
    transform_count_and_order [of "\<lparr>states = JArr []\<rparr>" "[]"]
  by (simp add: scenario_state_def indexable_scenario falsy_record_def invalid_record_def
      invalid_field_def missing_or_falsy_def field_scenario)

text \<open>
  C5, as stated, fails: a record whose longitude is the text \<open>"N/A"\<close> reaches the snapshot,
  as a marker whose longitude is not-a-number.
\<close>

theorem nonfinite_position_counterexample:
  "getAirplaneMarkers
     \<lparr>states = JArr [scenario (JStr ''N/A'') (JNum (Fin (81 / 4))) (JNum (Fin 90))]\<rparr>
   = Inr [\<lparr>lonlat = (NaN, Fin (81 / 4)), rotation = 90 * (pi / 180),
           airplaneData = scenario (JStr ''N/A'') (JNum (Fin (81 / 4))) (JNum (Fin 90))\<rparr>]"
  by (simp add: getAirplaneMarkers_def state_marker_eq indexable_scenario valid_state_def
      field_scenario radians_JNum wrap32_def NaN_na)

text \<open>
  C5, amended. Every marker of a snapshot comes from a record of the response whose
  latitude, longitude and heading fields are all truthy, so no record with a missing or
  falsy field reaches the renderer. Its position is the pair of the converted longitude
  and latitude fields, hence finite whenever those two fields are finite numbers, and its
  rotation is a finite number of at most \<open>2 ^ 31\<close> degrees in absolute value.
\<close>

theorem rendered_entities_truthy_fields:
  assumes "getAirplaneMarkers fd = Inr ms" and "m \<in> set ms"
  shows "(\<exists>sts. states fd = JArr sts \<and> airplaneData m \<in> set sts)
       \<and> truthy (field (airplaneData m) 6) \<and> truthy (field (airplaneData m) 5)
       \<and> truthy (field (airplaneData m) 10)
       \<and> lonlat m = (to_number (field (airplaneData m) 5), to_number (field (airplaneData m) 6))
       \<and> rotation m = decimalDegreesToRadians (field (airplaneData m) 10)
       \<and> \<bar>rotation m\<bar> \<le> 2 ^ 31 * (pi / 180)
       \<and> (\<forall>a b. field (airplaneData m) 5 = JNum (Fin a) \<and> field (airplaneData m) 6 = JNum (Fin b)
            \<longrightarrow> lonlat m = (Fin a, Fin b))"
proof -
  obtain sts where sts: "states fd = JArr sts" "ms = map state_icon (filter valid_state sts)"
    using getAirplaneMarkers_Inr [OF assms(1)] by blast
  with assms(2) obtain s where s: "s \<in> set sts" "valid_state s" "m = state_icon s"
    by auto
  have "lonlat m = (to_number (field s 5), to_number (field s 6))"
    and "rotation m = decimalDegreesToRadians (field s 10)"
    using s(3) by (simp_all add: state_icon_def createPlaneIcon_def)
  moreover have "\<bar>decimalDegreesToRadians (field s 10)\<bar> \<le> 2 ^ 31 * (pi / 180)"
    by (rule rotation_bound)
  moreover have "airplaneData m = s"
    using s(3) by simp
  moreover have "truthy (field s 6)" "truthy (field s 5)" "truthy (field s 10)"
    using s(2) by (simp_all add: valid_state_def)
  ultimately show ?thesis
    using sts(1) s(1) by (simp only:) simp
qed

text \<open>
  In a snapshot of two records, the first with a \<open>null\<close> latitude, the only marker is the
  second record's, at longitude -7 and latitude 50, turned by 270 degrees.
\<close>

theorem rendered_entities_truthy_fields_witness:
  "lonlat (state_icon (scenario (JNum (Fin (- 7))) (JNum (Fin 50)) (JNum (Fin 270))))
     = (Fin (- 7), Fin 50)
   \<and> rotation (state_icon (scenario (JNum (Fin (- 7))) (JNum (Fin 50)) (JNum (Fin 270))))
     = 270 * (pi / 180)"
  using rendered_entities_truthy_fields
    [of "\<lparr>states = JArr [scenario (JNum (Fin 3)) JNull (JNum (Fin 90)),
                         scenario (JNum (Fin (- 7))) (JNum (Fin 50)) (JNum (Fin 270))]\<rparr>"
        "[state_icon (scenario (JNum (Fin (- 7))) (JNum (Fin 50)) (JNum (Fin 270)))]"
        "state_icon (scenario (JNum (Fin (- 7))) (JNum (Fin 50)) (JNum (Fin 270)))"]
  by (simp add: getAirplaneMarkers_def state_marker_icon indexable_scenario valid_state_def
      field_scenario radians_JNum wrap32_def)

section \<open>The inspection overlay's handlers\<close>

text \<open>
  C8. A click that strikes no feature hides the overlay and so clears the inspection state,
  whatever the state was before, and ends without an exception.
\<close>

theorem miss_clears_inspection:
  "map_click None coordinate u = (None, u\<lparr>overlay_position := None\<rparr>)
   \<and> overlay_position (snd (map_click None coordinate u)) = None
   \<and> inspection_state (snd (map_click None coordinate u)) = None"
  by (simp add: map_click_def inspection_state_def)

text \<open>A click on the scenario's marker selects it; a miss after that clears the selection.\<close>

theorem miss_clears_inspection_witness:
  "inspection_state
     (snd (map_click (Some [state_icon scenario_state]) (3, 4)
        \<lparr>overlay_position = None, popup_body = [], closer_focused = False\<rparr>))
     = Some [(''Callsign'', JStr ''ABC123''), (''From'', JStr ''USA''),
             (''Latitude'', JNum (Fin (21 / 2))), (''Longitude'', JNum (Fin (81 / 4)))]
   \<and> inspection_state
     (snd (map_click None (5, 6)
        (snd (map_click (Some [state_icon scenario_state]) (3, 4)
           \<lparr>overlay_position = None, popup_body = [], closer_focused = False\<rparr>))))
     = None"
  using miss_clears_inspection
    [of "(5, 6)"
        "snd (map_click (Some [state_icon scenario_state]) (3, 4)
           \<lparr>overlay_position = None, popup_body = [], closer_focused = False\<rparr>)"]
  by (simp add: scenario_state_def map_click_def inspection_state_def setPopupContent_indexable
      indexable_scenario field_scenario)

text \<open>
  C9. The close action hides the overlay and clears the inspection state from every state,
  and applying it twice leaves the state that applying it once leaves.
\<close>

theorem close_hides_and_is_idempotent:
  "overlay_position (close_click u) = None
   \<and> inspection_state (close_click u) = None
   \<and> close_click (close_click u) = close_click u"
  by (simp add: close_click_def inspection_state_def)

text \<open>Closing a visible overlay hides it; closing a hidden one changes nothing.\<close>

theorem close_hides_and_is_idempotent_witness:
  "close_click \<lparr>overlay_position = Some (3, 4), popup_body = [(''Callsign'', JStr ''ABC123'')],
                closer_focused = True\<rparr>
     = \<lparr>overlay_position = None, popup_body = [(''Callsign'', JStr ''ABC123'')],
        closer_focused = False\<rparr>
   \<and> close_click \<lparr>overlay_position = None, popup_body = [], closer_focused = False\<rparr>
     = \<lparr>overlay_position = None, popup_body = [], closer_focused = False\<rparr>"
  using close_hides_and_is_idempotent
    [of "\<lparr>overlay_position = Some (3, 4), popup_body = [(''Callsign'', JStr ''ABC123'')],
          closer_focused = True\<rparr>"]
  by (simp add: close_click_def)

section \<open>The refresh scheduler\<close>

lemma timer_fires_idle: "timer w = None \<Longrightarrow> timer_fires r w = w"
  by (simp add: timer_fires_def)

lemma run_idle: "timer w = None \<Longrightarrow> run rs w = w"
  by (induction rs) (simp_all add: timer_fires_idle)

lemma process_fails:
  "getAirplaneMarkers data = Inl e \<Longrightarrow>
   processAirTrafficData data old w = (Some e, hideLoader w)"
  by (simp add: processAirTrafficData_def)

lemma process_succeeds:
  "getAirplaneMarkers data = Inr ms \<Longrightarrow>
   processAirTrafficData data old w =
     (None, (addLayer (Vector (next_layer w) ms)
              (removeLayer old ((hideLoader w)\<lparr>next_layer := Suc (next_layer w)\<rparr>)))
            \<lparr>timer := Some (Vector (next_layer w) ms)\<rparr>)"
  by (simp add: processAirTrafficData_def getFlightDataOverlay_def hideLoader_def)

lemma timer_after_failure: "cycle_fails r \<Longrightarrow> timer (timer_fires r w) = None"
  by (cases "timer w"; cases r)
    (auto simp: timer_fires_def cycle_fails_def process_fails hideLoader_def isl_def)

lemma timer_after_failed_startup: "cycle_fails r \<Longrightarrow> timer (startup r) = None"
  by (cases r)
    (auto simp: startup_def cycle_fails_def process_fails hideLoader_def initial_world_def
      isl_def)

lemma fetches_failed_startup: "cycle_fails r \<Longrightarrow> fetches (startup r) = 1"
  by (cases r)
    (auto simp: startup_def cycle_fails_def process_fails hideLoader_def initial_world_def
      isl_def)

lemma timer_fires_success:
  assumes "timer w = Some old" and "getAirplaneMarkers data = Inr ms"
  shows "timer_fires (Inr data) w =
     w\<lparr>map_layers := remove1 old (map_layers w) @ [Vector (next_layer w) ms],
       map_ops := map_ops w @ [RemoveLayer (Some old), AddLayer (Vector (next_layer w) ms)],
       next_layer := Suc (next_layer w),
       loader_invisible := True,
       timer := Some (Vector (next_layer w) ms),
       fetches := Suc (fetches w)\<rparr>"
  using assms
  by (simp add: timer_fires_def process_succeeds hideLoader_def removeLayer_def addLayer_def)

lemma startup_success:
  assumes "getAirplaneMarkers data = Inr ms"
  shows "startup (Inr data) =
     \<lparr>map_layers = [Tile, Vector 0 ms],
      map_ops = [RemoveLayer None, AddLayer (Vector 0 ms)],
      next_layer = 1, loader_invisible = True, timer = Some (Vector 0 ms),
      fetches = 1, console = []\<rparr>"
  using assms
  by (simp add: startup_def initial_world_def process_succeeds hideLoader_def removeLayer_def
      addLayer_def)

lemma layer_known_mono:
  "layer_known w l \<Longrightarrow> next_layer w \<le> next_layer w' \<Longrightarrow> layer_known w' l"
  by (cases l) (simp_all add: layer_known_def)

lemma layer_known_update:
  "layer_known (w\<lparr>timer := t\<rparr>) = layer_known w"
  "layer_known (w\<lparr>fetches := n\<rparr>) = layer_known w"
  "layer_known (w\<lparr>loader_invisible := b\<rparr>) = layer_known w"
  by (rule ext, simp add: layer_known_def split: layer.splits)+

lemma new_layer_unknown: "\<not> layer_known w (Vector (next_layer w) ms)"
  by (simp add: layer_known_def)

lemma markers_scenario:
  "getAirplaneMarkers \<lparr>states = JArr [scenario_state]\<rparr> = Inr [state_icon scenario_state]"
  by (simp add: scenario_state_def getAirplaneMarkers_def state_marker_icon indexable_scenario
      valid_state_def field_scenario)

lemma markers_null: "getAirplaneMarkers \<lparr>states = JNull\<rparr> = Inl TypeError"
  by (simp add: getAirplaneMarkers_def)

lemma wf_after_success:
  assumes "wf_world w" and "timer w = Some old" and "getAirplaneMarkers data = Inr ms"
  shows "wf_world (timer_fires (Inr data) w)"
proof -
  let ?new = "Vector (next_layer w) ms"
  let ?w' = "timer_fires (Inr data) w"
  have eq: "?w' = w\<lparr>map_layers := remove1 old (map_layers w) @ [?new],
       map_ops := map_ops w @ [RemoveLayer (Some old), AddLayer ?new],
       next_layer := Suc (next_layer w),
       loader_invisible := True,
       timer := Some ?new,
       fetches := Suc (fetches w)\<rparr>"
    using assms(2,3) by (rule timer_fires_success)
  have d: "distinct (map_layers w)" and k: "list_all (layer_known w) (map_layers w)"
    using assms(1) by (simp_all add: wf_world_def)
  have fresh: "?new \<notin> set (map_layers w)"
    using k new_layer_unknown [of w ms] by (auto simp: list_all_iff)
  have sub: "set (remove1 old (map_layers w)) \<subseteq> set (map_layers w)"
    by (rule set_remove1_subset)
  have "distinct (remove1 old (map_layers w) @ [?new])"
    using d fresh sub by auto
  moreover have "layer_known ?w' l" if "l \<in> set (map_layers w)" for l
    using k that unfolding eq by (auto simp: list_all_iff intro: layer_known_mono)
  then have "list_all (layer_known ?w') (remove1 old (map_layers w))"
    using sub by (auto simp: list_all_iff)
  moreover have "layer_known ?w' ?new"
    unfolding eq by (simp add: layer_known_def)
  ultimately show ?thesis
    unfolding eq by (simp add: wf_world_def)
qed

lemma wf_after_failure:
  assumes "wf_world w" and "cycle_fails r"
  shows "wf_world (timer_fires r w)"
proof (cases "timer w")
  case None
  with assms(1) show ?thesis
    by (simp add: timer_fires_idle)
next
  case (Some old)
  have a: "wf_world (w\<lparr>timer := None, fetches := Suc (fetches w)\<rparr>)"
    using assms(1) by (simp add: wf_world_def layer_known_update)
  then have "wf_world (hideLoader (w\<lparr>timer := None, fetches := Suc (fetches w)\<rparr>))"
    by (simp add: wf_world_def layer_known_update hideLoader_def)
  with a Some assms(2) show ?thesis
    by (cases r) (auto simp: timer_fires_def cycle_fails_def process_fails isl_def)
qed

lemma wf_timer_fires:
  assumes "wf_world w"
  shows "wf_world (timer_fires r w)"
proof (cases "cycle_fails r")
  case True
  with assms show ?thesis
    by (rule wf_after_failure)
next
  case False
  then obtain data ms where r: "r = Inr data" and ms: "getAirplaneMarkers data = Inr ms"
    by (cases r; cases "getAirplaneMarkers (projr r)") (auto simp: cycle_fails_def)
  show ?thesis
  proof (cases "timer w")
    case None
    with assms show ?thesis
      by (simp add: timer_fires_idle)
  next
    case (Some old)
    show ?thesis
      unfolding r using assms Some ms by (rule wf_after_success)
  qed
qed

lemma wf_startup: "wf_world (startup r)"
proof (cases r)
  case (Inl e)
  then show ?thesis
    by (simp add: startup_def initial_world_def wf_world_def layer_known_def)
next
  case (Inr data)
  show ?thesis
  proof (cases "getAirplaneMarkers data")
    case (Inl e)
    with Inr show ?thesis
      by (simp add: startup_def initial_world_def process_fails hideLoader_def wf_world_def
          layer_known_def)
  next
    case ms: (Inr ms)
    show ?thesis
      unfolding Inr startup_success [OF ms] by (simp add: wf_world_def layer_known_def)
  qed
qed

lemma wf_run: "wf_world w \<Longrightarrow> wf_world (run rs w)"
  by (induction rs arbitrary: w) (simp_all add: wf_timer_fires)

text \<open>Every state the program reaches satisfies the invariant the swap relies on.\<close>

lemma wf_reachable: "wf_world (run rs (startup r))"
  by (rule wf_run) (rule wf_startup)

text \<open>
  C6. When a cycle fails, by a rejected request or by an exception of the transformation,
  no timeout is pending afterwards, and whatever the network would answer from then on,
  the program does nothing more: the state and the number of requests sent stay as the
  failed cycle left them. This holds for a cycle started by the timeout and for the first
  cycle at start-up.
\<close>

theorem failure_stops_refresh:
  assumes "cycle_fails r"
  shows "timer (timer_fires r w) = None
       \<and> run rs (timer_fires r w) = timer_fires r w
       \<and> fetches (run rs (timer_fires r w)) = fetches (timer_fires r w)
       \<and> timer (startup r) = None
       \<and> run rs (startup r) = startup r
       \<and> fetches (run rs (startup r)) = 1"
proof -
  have "timer (timer_fires r w) = None"
    using assms by (rule timer_after_failure)
  moreover have "timer (startup r) = None"
    using assms by (rule timer_after_failed_startup)
  moreover have "fetches (startup r) = 1"
    using assms by (rule fetches_failed_startup)
  ultimately show ?thesis
    by (simp add: run_idle)
qed

text \<open>
  After a good start-up, a response whose \<open>states\<close> is \<open>null\<close> ends the refreshing: two
  requests are sent in all, although two more good responses stand ready. With three good
  responses instead, four requests are sent.
\<close>

theorem failure_stops_refresh_witness:
  "fetches (run [Inr \<lparr>states = JNull\<rparr>, scenario_response, scenario_response]
              (startup scenario_response)) = 2
   \<and> fetches (run [scenario_response, scenario_response, scenario_response]
                (startup scenario_response)) = 4"
  using failure_stops_refresh
    [of "Inr \<lparr>states = JNull\<rparr>" "startup scenario_response"
        "[scenario_response, scenario_response]"]
  by (simp add: scenario_response_def cycle_fails_def markers_null markers_scenario
      startup_success timer_fires_def process_fails process_succeeds hideLoader_def
      removeLayer_def addLayer_def)

text \<open>
  C7, as stated, fails: over the start-up and one refresh, the calls on the map are: remove
  nothing, add the first layer, remove the first layer, add the second layer. The previous
  layer is removed before the new one is added.
\<close>

theorem attach_first_counterexample:
  "map_ops (timer_fires scenario_response (startup scenario_response))
     = [RemoveLayer None, AddLayer (Vector 0 [state_icon scenario_state]),
        RemoveLayer (Some (Vector 0 [state_icon scenario_state])),
        AddLayer (Vector 1 [state_icon scenario_state])]"
  by (simp add: scenario_response_def startup_success [OF markers_scenario]
      timer_fires_success [OF _ markers_scenario])

text \<open>
  C7, amended. In every refresh cycle that succeeds, the swap first removes the previous
  cycle's layer from the map and then adds the new layer, and at the end of the swap the
  previous layer is no longer on the map while the new one is; the new layer is the one
  the next cycle will remove.
\<close>

theorem swap_detaches_then_attaches:
  assumes "wf_world w" and "timer w = Some old" and "getAirplaneMarkers data = Inr ms"
  shows "map_ops (timer_fires (Inr data) w)
           = map_ops w @ [RemoveLayer (Some old), AddLayer (Vector (next_layer w) ms)]
       \<and> map_layers (timer_fires (Inr data) w)
           = remove1 old (map_layers w) @ [Vector (next_layer w) ms]
       \<and> old \<notin> set (map_layers (timer_fires (Inr data) w))
       \<and> Vector (next_layer w) ms \<in> set (map_layers (timer_fires (Inr data) w))
       \<and> timer (timer_fires (Inr data) w) = Some (Vector (next_layer w) ms)
       \<and> wf_world (timer_fires (Inr data) w)"
proof -
  let ?new = "Vector (next_layer w) ms"
  let ?w' = "timer_fires (Inr data) w"
  have eq: "?w' = w\<lparr>map_layers := remove1 old (map_layers w) @ [?new],
       map_ops := map_ops w @ [RemoveLayer (Some old), AddLayer ?new],
       next_layer := Suc (next_layer w),
       loader_invisible := True,
       timer := Some ?new,
       fetches := Suc (fetches w)\<rparr>"
    using assms(2,3) by (rule timer_fires_success)
  have d: "distinct (map_layers w)" and k: "list_all (layer_known w) (map_layers w)"
    and ko: "layer_known w old"
    using assms(1,2) by (simp_all add: wf_world_def)
  have neq: "old \<noteq> ?new"
    using ko new_layer_unknown [of w ms] by auto
  have fresh: "?new \<notin> set (map_layers w)"
    using k new_layer_unknown [of w ms] by (auto simp: list_all_iff)
  have gone: "old \<notin> set (remove1 old (map_layers w))"
    using d by simp
  have wf: "wf_world ?w'"
    using assms by (rule wf_after_success)
  show ?thesis
    using neq gone wf unfolding eq by simp
qed

text \<open>
  In the refresh after a good start-up, the map holds the tile layer and the second
  vector layer only.
\<close>

theorem swap_detaches_then_attaches_witness:
  "map_layers (timer_fires scenario_response (startup scenario_response))
     = [Tile, Vector 1 [state_icon scenario_state]]"
  using swap_detaches_then_attaches
    [of "startup scenario_response" "Vector 0 [state_icon scenario_state]"
        "\<lparr>states = JArr [scenario_state]\<rparr>" "[state_icon scenario_state]"]
  by (simp add: scenario_response_def startup_success [OF markers_scenario] markers_scenario
      wf_world_def layer_known_def)

end
